theory Spec2Isabelle
  imports Main "HOL-Library.Word" "HOL-Library.Sublist" "HOL-Library.Multiset"
begin

section \<open>JavaScript strings\<close>

text \<open>
  A JavaScript string is a sequence of UTF-16 code units. \<open>js\<close> writes an ASCII literal
  of the source as such a sequence.
\<close>

type_synonym jsstring = "16 word list"

definition js :: "string \<Rightarrow> jsstring" where
  "js s = map (\<lambda>c. word_of_nat (of_char c)) s"

text \<open>
  \<open>String.prototype.trim\<close> removes, at both ends, the code units of ECMAScript's
  WhiteSpace and LineTerminator productions: TAB, LF, VT, FF, CR, SP, NBSP, the other
  space separators of Unicode (all in the basic plane), LS, PS and the byte order mark.
\<close>

definition isWhiteSpace :: "16 word \<Rightarrow> bool" where
  "isWhiteSpace c \<longleftrightarrow>
     c \<in> set [0x0009, 0x000A, 0x000B, 0x000C, 0x000D, 0x0020, 0x00A0, 0x1680,
              0x2000, 0x2001, 0x2002, 0x2003, 0x2004, 0x2005, 0x2006, 0x2007,
              0x2008, 0x2009, 0x200A, 0x2028, 0x2029, 0x202F, 0x205F, 0x3000, 0xFEFF]"

definition trim :: "jsstring \<Rightarrow> jsstring" where
  "trim s = rev (dropWhile isWhiteSpace (rev (dropWhile isWhiteSpace s)))"

definition startsWith :: "jsstring \<Rightarrow> jsstring \<Rightarrow> bool" where
  "startsWith s t \<longleftrightarrow> prefix t s"

definition endsWith :: "jsstring \<Rightarrow> jsstring \<Rightarrow> bool" where
  "endsWith s t \<longleftrightarrow> suffix t s"

definition substring :: "jsstring \<Rightarrow> nat \<Rightarrow> jsstring" where
  "substring s start = drop start s"

text \<open>\<open>Array.prototype.some\<close>: the first element that satisfies the callback ends the scan.\<close>

fun some :: "('a \<Rightarrow> bool) \<Rightarrow> 'a list \<Rightarrow> bool" where
  "some p [] = False"
| "some p (x # xs) = (if p x then True else some p xs)"

section \<open>The data of \<open>main.ts\<close>\<close>

record FrontmatterRule =
  key :: jsstring
  value' :: jsstring

record MyPluginSettings =
  collapsePaths :: "jsstring list"
  collapseFrontmatterRules :: "FrontmatterRule list"

definition DEFAULT_SETTINGS :: MyPluginSettings where
  "DEFAULT_SETTINGS =
     \<lparr>collapsePaths = [],
      collapseFrontmatterRules = [\<lparr>key = js ''hideside'', value' = js ''true''\<rparr>]\<rparr>"

text \<open>The two fields of the host's \<open>TFile\<close> that the plugin reads.\<close>

record TFile =
  path :: jsstring
  extension :: jsstring

text \<open>
  The values of a frontmatter. The parsed metadata block holds strings, numbers,
  booleans and \<open>null\<close>, and lists of values; \<open>FmObject\<close> is an object that \<open>String\<close>
  renders as \<open>[object Object]\<close> (\<open>Object.prototype\<close> itself, or a nested mapping that
  has no key \<open>toString\<close> of its own), and \<open>FmFunction\<close> is a built-in function, given by
  its name. A nested mapping that has a key \<open>toString\<close> of its own, on which \<open>String\<close>
  raises a \<open>TypeError\<close>, has no value here.
  The type \<open>'n\<close> of numbers and their conversion to a string are parameters of the model
  (\<open>numberToString\<close> below): every theorem holds for any number type and any rendering
  of it.
\<close>

datatype 'n fmvalue =
  FmString jsstring
| FmNumber 'n
| FmBoolean bool
| FmNull
| FmArray "'n fmvalue list"
| FmObject
| FmFunction jsstring

text \<open>
  The frontmatter of a file is an ordinary object: \<open>'n FrontMatterCache\<close> holds its own
  properties, and its prototype is \<open>Object.prototype\<close>, with the properties of ECMAScript
  (the accessor \<open>__proto__\<close> gives the prototype of the object it is read from, which is
  \<open>Object.prototype\<close> again).
\<close>

type_synonym 'n FrontMatterCache = "jsstring \<rightharpoonup> 'n fmvalue"

record 'n CachedMetadata =
  frontmatter :: "'n FrontMatterCache option"

definition ObjectPrototype :: "jsstring \<rightharpoonup> 'n fmvalue" where
  "ObjectPrototype = map_of
     [(js ''constructor'', FmFunction (js ''Object'')),
      (js ''__defineGetter__'', FmFunction (js ''__defineGetter__'')),
      (js ''__defineSetter__'', FmFunction (js ''__defineSetter__'')),
      (js ''hasOwnProperty'', FmFunction (js ''hasOwnProperty'')),
      (js ''__lookupGetter__'', FmFunction (js ''__lookupGetter__'')),
      (js ''__lookupSetter__'', FmFunction (js ''__lookupSetter__'')),
      (js ''isPrototypeOf'', FmFunction (js ''isPrototypeOf'')),
      (js ''propertyIsEnumerable'', FmFunction (js ''propertyIsEnumerable'')),
      (js ''toString'', FmFunction (js ''toString'')),
      (js ''valueOf'', FmFunction (js ''valueOf'')),
      (js ''__proto__'', FmObject),
      (js ''toLocaleString'', FmFunction (js ''toLocaleString''))]"

text \<open>
  The property read \<open>frontmatter[key]\<close>: an own property wins, else the property is looked
  up in the prototype; \<open>None\<close> is \<open>undefined\<close>.
\<close>

definition Get :: "'n FrontMatterCache \<Rightarrow> jsstring \<Rightarrow> 'n fmvalue option" where
  "Get fm k = (case fm k of Some v \<Rightarrow> Some v | None \<Rightarrow> ObjectPrototype k)"

text \<open>
  \<open>String(v)\<close>. A list is rendered as \<open>Array.prototype.join\<close> does, with commas between
  the elements and nothing for an element \<open>null\<close>; a built-in function as the engine of
  the host (V8) prints it.
\<close>

fun join :: "jsstring \<Rightarrow> jsstring list \<Rightarrow> jsstring" where
  "join separator [] = []"
| "join separator [s] = s"
| "join separator (s # t # ts) = s @ separator @ join separator (t # ts)"

fun ToString :: "('n \<Rightarrow> jsstring) \<Rightarrow> 'n fmvalue \<Rightarrow> jsstring" where
  "ToString numberToString (FmString s) = s"
| "ToString numberToString (FmNumber n) = numberToString n"
| "ToString numberToString (FmBoolean b) = (if b then js ''true'' else js ''false'')"
| "ToString numberToString FmNull = js ''null''"
| "ToString numberToString (FmArray vs) =
     join (js '','')
       (map (\<lambda>v. case v of FmNull \<Rightarrow> [] | _ \<Rightarrow> ToString numberToString v) vs)"
| "ToString numberToString FmObject = js ''[object Object]''"
| "ToString numberToString (FmFunction name) =
     js ''function '' @ name @ js ''() { [native code] }''"

fun String :: "('n \<Rightarrow> jsstring) \<Rightarrow> 'n fmvalue option \<Rightarrow> jsstring" where
  "String numberToString None = js ''undefined''"
| "String numberToString (Some v) = ToString numberToString v"

text \<open>
  The left sidebar of the workspace: whether it is collapsed, and the calls it has
  received, oldest first.
\<close>

datatype sidebar_call = Expand | Collapse

record leftSplit =
  collapsed :: bool
  calls :: "sidebar_call list"

definition expand :: "leftSplit \<Rightarrow> leftSplit" where
  "expand ls = ls\<lparr>collapsed := False, calls := calls ls @ [Expand]\<rparr>"

definition collapse :: "leftSplit \<Rightarrow> leftSplit" where
  "collapse ls = ls\<lparr>collapsed := True, calls := calls ls @ [Collapse]\<rparr>"

section \<open>\<open>shouldCollapseSidebar\<close>\<close>

text \<open>The callback of the scan over \<open>collapsePaths\<close> (lines 78 to 91).\<close>

definition settingPathMatches :: "TFile \<Rightarrow> jsstring \<Rightarrow> bool" where
  "settingPathMatches file settingPath =
     (let trimmedPath = trim settingPath in
      if trimmedPath = [] then False
      else if endsWith trimmedPath (js ''/'') then startsWith (path file) trimmedPath
      else if startsWith trimmedPath (js ''.'') then extension file = substring trimmedPath 1
      else False)"

text \<open>The callback of the scan over \<open>collapseFrontmatterRules\<close> (lines 100 to 103).\<close>

definition frontmatterRuleMatches ::
    "('n \<Rightarrow> jsstring) \<Rightarrow> 'n FrontMatterCache \<Rightarrow> FrontmatterRule \<Rightarrow> bool" where
  "frontmatterRuleMatches numberToString fm rule =
     (let frontmatterValue = Get fm (key rule) in
      frontmatterValue \<noteq> None \<and>
      trim (String numberToString frontmatterValue) = trim (value' rule))"

definition shouldCollapseSidebar ::
    "('n \<Rightarrow> jsstring) \<Rightarrow> MyPluginSettings \<Rightarrow> (TFile \<Rightarrow> 'n CachedMetadata option) \<Rightarrow> TFile \<Rightarrow> bool" where
  "shouldCollapseSidebar numberToString settings getFileCache file =
     (let pathMatches = some (settingPathMatches file) (collapsePaths settings) in
      if pathMatches then True
      else
        (case getFileCache file of
           None \<Rightarrow> False
         | Some fileCache \<Rightarrow>
             (case frontmatter fileCache of
                None \<Rightarrow> False
              | Some fm \<Rightarrow>
                  some (frontmatterRuleMatches numberToString fm)
                    (collapseFrontmatterRules settings))))"

section \<open>\<open>handleFileOpen\<close> and \<open>loadSettings\<close>\<close>

definition handleFileOpen ::
    "('n \<Rightarrow> jsstring) \<Rightarrow> MyPluginSettings \<Rightarrow> (TFile \<Rightarrow> 'n CachedMetadata option) \<Rightarrow>
     TFile option \<Rightarrow> leftSplit \<Rightarrow> leftSplit" where
  "handleFileOpen numberToString settings getFileCache file ls =
     (case file of
        None \<Rightarrow> ls
      | Some f \<Rightarrow>
          if length (collapsePaths settings) = 0 \<and>
             length (collapseFrontmatterRules settings) = 0
          then expand ls
          else if shouldCollapseSidebar numberToString settings getFileCache f
          then collapse ls
          else expand ls)"

text \<open>
  What \<open>loadData\<close> resolves to: \<open>null\<close> when nothing was saved, else an object that
  holds some of the fields of the settings.
\<close>

record SavedData =
  savedCollapsePaths :: "jsstring list option"
  savedCollapseFrontmatterRules :: "FrontmatterRule list option"

text \<open>
  \<open>Object.assign({}, DEFAULT_SETTINGS, data)\<close>: every field of the defaults is copied,
  then every field that the saved object holds overwrites it; a \<open>null\<close> source is skipped.
\<close>

definition loadSettings :: "SavedData option \<Rightarrow> MyPluginSettings" where
  "loadSettings loadData =
     (case loadData of
        None \<Rightarrow> DEFAULT_SETTINGS
      | Some data \<Rightarrow>
          \<lparr>collapsePaths =
             (case savedCollapsePaths data of
                None \<Rightarrow> collapsePaths DEFAULT_SETTINGS
              | Some ps \<Rightarrow> ps),
           collapseFrontmatterRules =
             (case savedCollapseFrontmatterRules data of
                None \<Rightarrow> collapseFrontmatterRules DEFAULT_SETTINGS
              | Some rs \<Rightarrow> rs)\<rparr>)"

section \<open>Auxiliary facts\<close>

lemmas js_eval =
  js_def trim_def isWhiteSpace_def startsWith_def endsWith_def substring_def suffix_def

lemma some_iff: "some p xs \<longleftrightarrow> (\<exists>x \<in> set xs. p x)"
  by (induction xs) auto

lemma dropWhile_all_Nil:
  assumes "\<forall>x \<in> set (dropWhile P xs). P x"
  shows "dropWhile P xs = []"
proof (rule ccontr)
  assume ne: "dropWhile P xs \<noteq> []"
  then have "\<not> P (hd (dropWhile P xs))" by (rule hd_dropWhile)
  moreover from ne have "hd (dropWhile P xs) \<in> set (dropWhile P xs)" by simp
  ultimately show False using assms by blast
qed

lemma trim_Nil_iff: "trim s = [] \<longleftrightarrow> list_all isWhiteSpace s"
proof
  assume "trim s = []"
  then have "\<forall>x \<in> set (dropWhile isWhiteSpace s). isWhiteSpace x"
    by (simp add: trim_def)
  then have "dropWhile isWhiteSpace s = []" by (rule dropWhile_all_Nil)
  then show "list_all isWhiteSpace s"
    by (simp add: list_all_iff)
next
  assume "list_all isWhiteSpace s"
  then show "trim s = []"
    by (auto simp: trim_def list_all_iff dest: set_dropWhileD)
qed

text \<open>
  The early return of \<open>handleFileOpen\<close> on empty settings agrees with the predicate: on a
  present file the handler always does what \<open>shouldCollapseSidebar\<close> says.
\<close>

lemma shouldCollapseSidebar_no_rules:
  "collapsePaths settings = [] \<Longrightarrow> collapseFrontmatterRules settings = [] \<Longrightarrow>
   \<not> shouldCollapseSidebar numberToString settings getFileCache file"
  by (simp add: shouldCollapseSidebar_def split: option.splits)

lemma handleFileOpen_Some:
  "handleFileOpen numberToString settings getFileCache (Some file) ls =
     (if shouldCollapseSidebar numberToString settings getFileCache file
      then collapse ls else expand ls)"
  by (simp add: handleFileOpen_def shouldCollapseSidebar_no_rules)


text \<open>
  What the frontmatter rules do on the keys that the frontmatter holds itself, on keys
  that neither the frontmatter nor its prototype holds, and on a file without frontmatter.
\<close>

lemma frontmatterRuleMatches_own_key:
  "fm (key rule) = Some v \<Longrightarrow>
   frontmatterRuleMatches numberToString fm rule \<longleftrightarrow>
     trim (ToString numberToString v) = trim (value' rule)"
  by (simp add: frontmatterRuleMatches_def Get_def)

lemma frontmatterRuleMatches_no_property:
  fixes fm :: "'n FrontMatterCache"
  assumes "fm (key rule) = None"
    and "ObjectPrototype (key rule) = (None :: 'n fmvalue option)"
  shows "\<not> frontmatterRuleMatches numberToString fm rule"
  using assms by (simp add: frontmatterRuleMatches_def Get_def)

lemma shouldCollapseSidebar_no_frontmatter:
  assumes "\<forall>p \<in> set (collapsePaths settings). \<not> settingPathMatches file p"
    and "getFileCache file = None \<or> (\<exists>c. getFileCache file = Some c \<and> frontmatter c = None)"
  shows "\<not> shouldCollapseSidebar numberToString settings getFileCache file"
  using assms by (auto simp: shouldCollapseSidebar_def some_iff)

lemma shouldCollapseSidebar_hideside_examples:
  "shouldCollapseSidebar numberToString
     \<lparr>collapsePaths = [],
      collapseFrontmatterRules = [\<lparr>key = js ''hideside'', value' = js ''true''\<rparr>]\<rparr>
     (\<lambda>f. Some \<lparr>frontmatter = Some [js ''hideside'' \<mapsto> FmString (js ''true'')]\<rparr>) file"
  "\<not> shouldCollapseSidebar numberToString
     \<lparr>collapsePaths = [],
      collapseFrontmatterRules = [\<lparr>key = js ''hideside'', value' = js ''true''\<rparr>]\<rparr>
     (\<lambda>f. Some \<lparr>frontmatter = Some [js ''hideside'' \<mapsto> FmString (js ''false'')]\<rparr>) file"
  "\<not> shouldCollapseSidebar numberToString
     \<lparr>collapsePaths = [],
      collapseFrontmatterRules = [\<lparr>key = js ''hideside'', value' = js ''true''\<rparr>]\<rparr>
     (\<lambda>f. Some \<lparr>frontmatter = None\<rparr>) file"
  by (simp_all add: shouldCollapseSidebar_def frontmatterRuleMatches_def Get_def js_eval)

section \<open>The claims\<close>

text \<open>
  C1: if some entry of the path rules matches the file, \<open>shouldCollapseSidebar\<close> is true
  and the handler collapses the sidebar, for every list of frontmatter rules and every
  state of the metadata cache: the frontmatter plays no part in the result.
\<close>

theorem C1_path_rule_takes_precedence:
  assumes "settingPath \<in> set (collapsePaths settings)"
    and "settingPathMatches file settingPath"
  shows "shouldCollapseSidebar numberToString settings getFileCache file \<and>
         shouldCollapseSidebar numberToString
           (settings\<lparr>collapseFrontmatterRules := rules\<rparr>) getFileCache' file \<and>
         handleFileOpen numberToString settings getFileCache (Some file) ls = collapse ls"
proof -
  from assms have m: "some (settingPathMatches file) (collapsePaths settings)"
    by (auto simp: some_iff)
  then have a: "shouldCollapseSidebar numberToString settings getFileCache file"
    by (simp add: shouldCollapseSidebar_def)
  from m have b: "shouldCollapseSidebar numberToString
      (settings\<lparr>collapseFrontmatterRules := rules\<rparr>) getFileCache' file"
    by (simp add: shouldCollapseSidebar_def)
  from a have "handleFileOpen numberToString settings getFileCache (Some file) ls = collapse ls"
    by (simp add: handleFileOpen_Some)
  with a b show ?thesis by simp
qed

theorem C1_witness:
  "js ''.pdf'' \<in> set (collapsePaths \<lparr>collapsePaths = [js ''notes/'', js ''.pdf''],
       collapseFrontmatterRules = [\<lparr>key = js ''hideside'', value' = js ''true''\<rparr>]\<rparr>) \<and>
   settingPathMatches \<lparr>path = js ''a/b.pdf'', extension = js ''pdf''\<rparr> (js ''.pdf'') \<and>
   shouldCollapseSidebar (\<lambda>n::int. js ''0'')
     \<lparr>collapsePaths = [js ''notes/'', js ''.pdf''],
      collapseFrontmatterRules = [\<lparr>key = js ''hideside'', value' = js ''true''\<rparr>]\<rparr>
     (\<lambda>f. Some \<lparr>frontmatter = Some [js ''hideside'' \<mapsto> FmString (js ''false'')]\<rparr>)
     \<lparr>path = js ''a/b.pdf'', extension = js ''pdf''\<rparr> \<and>
   handleFileOpen (\<lambda>n::int. js ''0'')
     \<lparr>collapsePaths = [js ''notes/'', js ''.pdf''],
      collapseFrontmatterRules = [\<lparr>key = js ''hideside'', value' = js ''true''\<rparr>]\<rparr>
     (\<lambda>f. Some \<lparr>frontmatter = Some [js ''hideside'' \<mapsto> FmString (js ''false'')]\<rparr>)
     (Some \<lparr>path = js ''a/b.pdf'', extension = js ''pdf''\<rparr>)
     \<lparr>collapsed = False, calls = []\<rparr> = \<lparr>collapsed = True, calls = [Collapse]\<rparr>"
proof -
  have h1: "js ''.pdf'' \<in> set (collapsePaths \<lparr>collapsePaths = [js ''notes/'', js ''.pdf''],
       collapseFrontmatterRules = [\<lparr>key = js ''hideside'', value' = js ''true''\<rparr>]\<rparr>)"
    by simp
  have h2: "settingPathMatches \<lparr>path = js ''a/b.pdf'', extension = js ''pdf''\<rparr> (js ''.pdf'')"
    by (simp add: settingPathMatches_def js_eval)
  show ?thesis
    using h1 h2
      C1_path_rule_takes_precedence [OF h1 h2,
        of "\<lambda>n::int. js ''0''"
           "\<lambda>f. Some \<lparr>frontmatter = Some [js ''hideside'' \<mapsto> FmString (js ''false'')]\<rparr>"
           "[]" "\<lambda>f. None" "\<lparr>collapsed = False, calls = []\<rparr>"]
    by (simp add: collapse_def)
qed

text \<open>
  C2: with no path rules and no frontmatter rules, \<open>shouldCollapseSidebar\<close> is false for
  every file and every metadata cache, and the handler expands the sidebar.
\<close>

theorem C2_empty_rules_expand:
  assumes "collapsePaths settings = []"
    and "collapseFrontmatterRules settings = []"
  shows "\<not> shouldCollapseSidebar numberToString settings getFileCache file \<and>
         handleFileOpen numberToString settings getFileCache (Some file) ls = expand ls \<and>
         \<not> collapsed (handleFileOpen numberToString settings getFileCache (Some file) ls)"
proof -
  have a: "\<not> shouldCollapseSidebar numberToString settings getFileCache file"
    using assms by (rule shouldCollapseSidebar_no_rules)
  then have b: "handleFileOpen numberToString settings getFileCache (Some file) ls = expand ls"
    by (simp add: handleFileOpen_Some)
  then have "\<not> collapsed (handleFileOpen numberToString settings getFileCache (Some file) ls)"
    by (simp add: expand_def)
  with a b show ?thesis by simp
qed

theorem C2_witness:
  "collapsePaths \<lparr>collapsePaths = [], collapseFrontmatterRules = []\<rparr> = [] \<and>
   collapseFrontmatterRules \<lparr>collapsePaths = [], collapseFrontmatterRules = []\<rparr> = [] \<and>
   \<not> shouldCollapseSidebar (\<lambda>n::int. js ''0'')
       \<lparr>collapsePaths = [], collapseFrontmatterRules = []\<rparr>
       (\<lambda>f. Some \<lparr>frontmatter = Some [js ''hideside'' \<mapsto> FmBoolean True]\<rparr>)
       \<lparr>path = js ''a/b.pdf'', extension = js ''pdf''\<rparr> \<and>
   handleFileOpen (\<lambda>n::int. js ''0'')
       \<lparr>collapsePaths = [], collapseFrontmatterRules = []\<rparr>
       (\<lambda>f. Some \<lparr>frontmatter = Some [js ''hideside'' \<mapsto> FmBoolean True]\<rparr>)
       (Some \<lparr>path = js ''a/b.pdf'', extension = js ''pdf''\<rparr>)
       \<lparr>collapsed = True, calls = []\<rparr> = \<lparr>collapsed = False, calls = [Expand]\<rparr>"
proof -
  have h1: "collapsePaths \<lparr>collapsePaths = [], collapseFrontmatterRules = []\<rparr> = []"
    by simp
  have h2: "collapseFrontmatterRules \<lparr>collapsePaths = [], collapseFrontmatterRules = []\<rparr> = []"
    by simp
  show ?thesis
    using h1 h2
      C2_empty_rules_expand [OF h1 h2,
        of "\<lambda>n::int. js ''0''"
           "\<lambda>f. Some \<lparr>frontmatter = Some [js ''hideside'' \<mapsto> FmBoolean True]\<rparr>"
           "\<lparr>path = js ''a/b.pdf'', extension = js ''pdf''\<rparr>"
           "\<lparr>collapsed = True, calls = []\<rparr>"]
    by (simp add: expand_def)
qed

text \<open>
  C3: an entry that, once trimmed, ends with \<open>/\<close> matches a file exactly when the path of
  the file starts with the trimmed entry, that is, when the path is the trimmed entry
  followed by some rest, code unit by code unit (so the comparison is literal and
  case-sensitive). With the single path rule \<open>attachments/\<close> the file
  \<open>attachments/img.png\<close> collapses the sidebar and \<open>notes/attachments/img.png\<close> does not;
  the entry \<open>Attachments/\<close> does not match \<open>attachments/img.png\<close>.
\<close>

theorem C3_folder_rule_is_prefix:
  "(endsWith (trim settingPath) (js ''/'') \<longrightarrow>
      (settingPathMatches file settingPath \<longleftrightarrow> startsWith (path file) (trim settingPath)) \<and>
      (settingPathMatches file settingPath \<longleftrightarrow> (\<exists>rest. path file = trim settingPath @ rest))) \<and>
   shouldCollapseSidebar numberToString
     \<lparr>collapsePaths = [js ''attachments/''], collapseFrontmatterRules = rules\<rparr> getFileCache
     \<lparr>path = js ''attachments/img.png'', extension = js ''png''\<rparr> \<and>
   \<not> shouldCollapseSidebar numberToString
     \<lparr>collapsePaths = [js ''attachments/''], collapseFrontmatterRules = []\<rparr> getFileCache
     \<lparr>path = js ''notes/attachments/img.png'', extension = js ''png''\<rparr> \<and>
   \<not> settingPathMatches \<lparr>path = js ''attachments/img.png'', extension = js ''png''\<rparr>
     (js ''Attachments/'')"
proof -
  have general: "settingPathMatches file settingPath \<longleftrightarrow> startsWith (path file) (trim settingPath)"
    if "endsWith (trim settingPath) (js ''/'')"
  proof -
    from that have "trim settingPath \<noteq> []"
      by (auto simp: endsWith_def js_def)
    with that show ?thesis
      by (simp add: settingPathMatches_def)
  qed
  have unfolded: "startsWith (path file) (trim settingPath) \<longleftrightarrow>
      (\<exists>rest. path file = trim settingPath @ rest)"
    by (simp add: startsWith_def prefix_def)
  have pos: "shouldCollapseSidebar numberToString
     \<lparr>collapsePaths = [js ''attachments/''], collapseFrontmatterRules = rules\<rparr> getFileCache
     \<lparr>path = js ''attachments/img.png'', extension = js ''png''\<rparr>"
    by (simp add: shouldCollapseSidebar_def settingPathMatches_def js_eval)
  have neg: "\<not> shouldCollapseSidebar numberToString
     \<lparr>collapsePaths = [js ''attachments/''], collapseFrontmatterRules = []\<rparr> getFileCache
     \<lparr>path = js ''notes/attachments/img.png'', extension = js ''png''\<rparr>"
    by (simp add: shouldCollapseSidebar_def settingPathMatches_def js_eval
        split: option.splits)
  have cs: "\<not> settingPathMatches \<lparr>path = js ''attachments/img.png'', extension = js ''png''\<rparr>
     (js ''Attachments/'')"
    by (simp add: settingPathMatches_def js_eval)
  from general unfolded pos neg cs show ?thesis by blast
qed

theorem C3_witness:
  "endsWith (trim (js ''  notes/project/ '')) (js ''/'') \<and>
   settingPathMatches \<lparr>path = js ''notes/project/plan.md'', extension = js ''md''\<rparr>
     (js ''  notes/project/ '') \<and>
   \<not> settingPathMatches \<lparr>path = js ''notes/projects.md'', extension = js ''md''\<rparr>
     (js ''  notes/project/ '')"
proof -
  have h: "endsWith (trim (js ''  notes/project/ '')) (js ''/'')"
    by (simp add: js_eval)
  have p: "startsWith (path \<lparr>path = js ''notes/project/plan.md'', extension = js ''md''\<rparr>)
      (trim (js ''  notes/project/ ''))"
    by (simp add: js_eval)
  have n: "\<not> startsWith (path \<lparr>path = js ''notes/projects.md'', extension = js ''md''\<rparr>)
      (trim (js ''  notes/project/ ''))"
    by (simp add: js_eval)
  note yes = C3_folder_rule_is_prefix [THEN conjunct1, rule_format, OF h,
      of "\<lparr>path = js ''notes/project/plan.md'', extension = js ''md''\<rparr>"]
  note no = C3_folder_rule_is_prefix [THEN conjunct1, rule_format, OF h,
      of "\<lparr>path = js ''notes/projects.md'', extension = js ''md''\<rparr>"]
  show ?thesis
    using h p n yes no by blast
qed

text \<open>
  C4: an entry that, once trimmed, does not end with \<open>/\<close> and starts with \<open>.\<close> matches a
  file exactly when the extension of the file is the trimmed entry without its first code
  unit, that is, when the trimmed entry is \<open>.\<close> followed by the extension (compared
  literally, so case-sensitively). With the single path rule \<open>.pdf\<close> a file of extension
  \<open>pdf\<close> collapses the sidebar and one of extension \<open>PDF\<close> does not.
\<close>

theorem C4_extension_rule_is_equality:
  "(\<not> endsWith (trim settingPath) (js ''/'') \<and> startsWith (trim settingPath) (js ''.'') \<longrightarrow>
      (settingPathMatches file settingPath \<longleftrightarrow> extension file = tl (trim settingPath)) \<and>
      (settingPathMatches file settingPath \<longleftrightarrow> trim settingPath = js ''.'' @ extension file)) \<and>
   shouldCollapseSidebar numberToString
     \<lparr>collapsePaths = [js ''.pdf''], collapseFrontmatterRules = rules\<rparr> getFileCache
     \<lparr>path = p, extension = js ''pdf''\<rparr> \<and>
   \<not> shouldCollapseSidebar numberToString
     \<lparr>collapsePaths = [js ''.pdf''], collapseFrontmatterRules = []\<rparr> getFileCache
     \<lparr>path = p, extension = js ''PDF''\<rparr>"
proof -
  have general: "(settingPathMatches file settingPath \<longleftrightarrow> extension file = tl (trim settingPath)) \<and>
      (settingPathMatches file settingPath \<longleftrightarrow> trim settingPath = js ''.'' @ extension file)"
    if a: "\<not> endsWith (trim settingPath) (js ''/'')"
      and b: "startsWith (trim settingPath) (js ''.'')"
  proof -
    from b obtain rest where t: "trim settingPath = 0x2E # rest"
      by (auto simp: startsWith_def js_def prefix_def)
    from a b have m: "settingPathMatches file settingPath \<longleftrightarrow>
        extension file = substring (trim settingPath) 1"
      using t by (simp add: settingPathMatches_def)
    from t have "substring (trim settingPath) 1 = tl (trim settingPath)"
      by (simp add: substring_def)
    with m t show ?thesis by (auto simp: js_def)
  qed
  have pos: "shouldCollapseSidebar numberToString
     \<lparr>collapsePaths = [js ''.pdf''], collapseFrontmatterRules = rules\<rparr> getFileCache
     \<lparr>path = p, extension = js ''pdf''\<rparr>"
    by (simp add: shouldCollapseSidebar_def settingPathMatches_def js_eval)
  have neg: "\<not> shouldCollapseSidebar numberToString
     \<lparr>collapsePaths = [js ''.pdf''], collapseFrontmatterRules = []\<rparr> getFileCache
     \<lparr>path = p, extension = js ''PDF''\<rparr>"
    by (simp add: shouldCollapseSidebar_def settingPathMatches_def js_eval
        split: option.splits)
  from general pos neg show ?thesis by blast
qed

theorem C4_witness:
  "\<not> endsWith (trim (js '' .md '')) (js ''/'') \<and> startsWith (trim (js '' .md '')) (js ''.'') \<and>
   settingPathMatches \<lparr>path = js ''notes/a.md'', extension = js ''md''\<rparr> (js '' .md '') \<and>
   \<not> settingPathMatches \<lparr>path = js ''notes/a.Md'', extension = js ''Md''\<rparr> (js '' .md '')"
proof -
  have h: "\<not> endsWith (trim (js '' .md '')) (js ''/'') \<and> startsWith (trim (js '' .md '')) (js ''.'')"
    by (simp add: js_eval)
  have t: "extension \<lparr>path = js ''notes/a.md'', extension = js ''md''\<rparr> =
      tl (trim (js '' .md ''))"
    by (simp add: js_eval)
  have d: "extension \<lparr>path = js ''notes/a.Md'', extension = js ''Md''\<rparr> \<noteq>
      tl (trim (js '' .md ''))"
    by (simp add: js_eval)
  note yes = C4_extension_rule_is_equality [THEN conjunct1, rule_format, OF h,
      of "\<lparr>path = js ''notes/a.md'', extension = js ''md''\<rparr>"]
  note no = C4_extension_rule_is_equality [THEN conjunct1, rule_format, OF h,
      of "\<lparr>path = js ''notes/a.Md'', extension = js ''Md''\<rparr>"]
  show ?thesis
    using h t d yes no by blast
qed

text \<open>
  C5: the claim says that a rule matches exactly when the frontmatter holds the key of the
  rule and the value found there, converted to a string and trimmed, is the trimmed value
  of the rule. The code reads the key as a property, so a key that the frontmatter does
  not hold but \<open>Object.prototype\<close> does is read as a defined value. At the frontmatter
  \<open>{title: "x"}\<close> and the single rule \<open>__proto__\<close>/\<open>[object Object]\<close> the key is not in the
  frontmatter, and yet the rule matches, \<open>shouldCollapseSidebar\<close> is true and the handler
  collapses the sidebar.
\<close>

theorem C5_inherited_property_matches:
  "[js ''title'' \<mapsto> FmString (js ''x'') :: int fmvalue] (js ''__proto__'') = None \<and>
   frontmatterRuleMatches (\<lambda>n::int. js ''0'') [js ''title'' \<mapsto> FmString (js ''x'')]
     \<lparr>key = js ''__proto__'', value' = js ''[object Object]''\<rparr> \<and>
   shouldCollapseSidebar (\<lambda>n::int. js ''0'')
     \<lparr>collapsePaths = [],
      collapseFrontmatterRules = [\<lparr>key = js ''__proto__'', value' = js ''[object Object]''\<rparr>]\<rparr>
     (\<lambda>f. Some \<lparr>frontmatter = Some [js ''title'' \<mapsto> FmString (js ''x'')]\<rparr>)
     \<lparr>path = js ''notes/a.md'', extension = js ''md''\<rparr> \<and>
   handleFileOpen (\<lambda>n::int. js ''0'')
     \<lparr>collapsePaths = [],
      collapseFrontmatterRules = [\<lparr>key = js ''__proto__'', value' = js ''[object Object]''\<rparr>]\<rparr>
     (\<lambda>f. Some \<lparr>frontmatter = Some [js ''title'' \<mapsto> FmString (js ''x'')]\<rparr>)
     (Some \<lparr>path = js ''notes/a.md'', extension = js ''md''\<rparr>)
     \<lparr>collapsed = False, calls = []\<rparr> = \<lparr>collapsed = True, calls = [Collapse]\<rparr>"
proof -
  have absent: "[js ''title'' \<mapsto> FmString (js ''x'') :: int fmvalue] (js ''__proto__'') = None"
    by (simp add: js_def)
  have rule: "frontmatterRuleMatches (\<lambda>n::int. js ''0'') [js ''title'' \<mapsto> FmString (js ''x'')]
     \<lparr>key = js ''__proto__'', value' = js ''[object Object]''\<rparr>"
    by (simp add: frontmatterRuleMatches_def Get_def ObjectPrototype_def js_eval)
  then have decision: "shouldCollapseSidebar (\<lambda>n::int. js ''0'')
     \<lparr>collapsePaths = [],
      collapseFrontmatterRules = [\<lparr>key = js ''__proto__'', value' = js ''[object Object]''\<rparr>]\<rparr>
     (\<lambda>f. Some \<lparr>frontmatter = Some [js ''title'' \<mapsto> FmString (js ''x'')]\<rparr>)
     \<lparr>path = js ''notes/a.md'', extension = js ''md''\<rparr>"
    by (simp add: shouldCollapseSidebar_def)
  then have "handleFileOpen (\<lambda>n::int. js ''0'')
     \<lparr>collapsePaths = [],
      collapseFrontmatterRules = [\<lparr>key = js ''__proto__'', value' = js ''[object Object]''\<rparr>]\<rparr>
     (\<lambda>f. Some \<lparr>frontmatter = Some [js ''title'' \<mapsto> FmString (js ''x'')]\<rparr>)
     (Some \<lparr>path = js ''notes/a.md'', extension = js ''md''\<rparr>)
     \<lparr>collapsed = False, calls = []\<rparr> = \<lparr>collapsed = True, calls = [Collapse]\<rparr>"
    by (simp add: handleFileOpen_Some collapse_def)
  with absent rule decision show ?thesis by (intro conjI)
qed

text \<open>
  C6: an entry of the path rules that consists of white space only, or that, once
  trimmed, neither ends with \<open>/\<close> nor starts with \<open>.\<close>, matches no file; the model has no
  error value, and the predicate and the handler give the same result with the entry,
  wherever it stands in the list, as without it.
\<close>

theorem C6_blank_or_malformed_entry_is_inert:
  assumes "list_all isWhiteSpace settingPath \<or>
           (\<not> endsWith (trim settingPath) (js ''/'') \<and> \<not> startsWith (trim settingPath) (js ''.''))"
  shows "\<not> settingPathMatches file settingPath \<and>
         shouldCollapseSidebar numberToString
           (settings\<lparr>collapsePaths := before @ settingPath # after\<rparr>) getFileCache file =
         shouldCollapseSidebar numberToString
           (settings\<lparr>collapsePaths := before @ after\<rparr>) getFileCache file \<and>
         handleFileOpen numberToString
           (settings\<lparr>collapsePaths := before @ settingPath # after\<rparr>) getFileCache opened ls =
         handleFileOpen numberToString
           (settings\<lparr>collapsePaths := before @ after\<rparr>) getFileCache opened ls"
proof -
  have no: "\<not> settingPathMatches any settingPath" for any
    using assms by (auto simp: settingPathMatches_def trim_Nil_iff)
  have same: "shouldCollapseSidebar numberToString
           (settings\<lparr>collapsePaths := before @ settingPath # after\<rparr>) getFileCache f =
         shouldCollapseSidebar numberToString
           (settings\<lparr>collapsePaths := before @ after\<rparr>) getFileCache f" for f
    using no [of f] by (simp add: shouldCollapseSidebar_def some_iff split: option.splits)
  have "handleFileOpen numberToString
           (settings\<lparr>collapsePaths := before @ settingPath # after\<rparr>) getFileCache opened ls =
         handleFileOpen numberToString
           (settings\<lparr>collapsePaths := before @ after\<rparr>) getFileCache opened ls"
  proof (cases opened)
    case None
    then show ?thesis by (simp add: handleFileOpen_def)
  next
    case (Some f)
    then show ?thesis using same [of f] by (simp only: handleFileOpen_Some)
  qed
  with no [of "file"] same [of "file"] show ?thesis by simp
qed

theorem C6_witness:
  "list_all isWhiteSpace (js ''   '') \<and>
   \<not> endsWith (trim (js ''notes'')) (js ''/'') \<and> \<not> startsWith (trim (js ''notes'')) (js ''.'') \<and>
   \<not> settingPathMatches \<lparr>path = js ''   '', extension = []\<rparr> (js ''   '') \<and>
   \<not> settingPathMatches \<lparr>path = js ''notes'', extension = js ''notes''\<rparr> (js ''notes'') \<and>
   handleFileOpen (\<lambda>n::int. js ''0'')
     \<lparr>collapsePaths = [js ''   ''], collapseFrontmatterRules = []\<rparr> (\<lambda>f. None)
     (Some \<lparr>path = js ''   '', extension = []\<rparr>) \<lparr>collapsed = True, calls = []\<rparr> =
   handleFileOpen (\<lambda>n::int. js ''0'')
     \<lparr>collapsePaths = [], collapseFrontmatterRules = []\<rparr> (\<lambda>f. None)
     (Some \<lparr>path = js ''   '', extension = []\<rparr>) \<lparr>collapsed = True, calls = []\<rparr>"
proof -
  have blank: "list_all isWhiteSpace (js ''   '')"
    by (simp add: js_def isWhiteSpace_def)
  have malformed: "\<not> endsWith (trim (js ''notes'')) (js ''/'') \<and>
      \<not> startsWith (trim (js ''notes'')) (js ''.'')"
    by (simp add: js_eval)
  note a = C6_blank_or_malformed_entry_is_inert [OF disjI1 [OF blank],
      of "\<lparr>path = js ''   '', extension = []\<rparr>" "\<lambda>n::int. js ''0''" "[]" "[]"
         "\<lparr>collapsePaths = [], collapseFrontmatterRules = []\<rparr>" "\<lambda>f. None"
         "Some \<lparr>path = js ''   '', extension = []\<rparr>" "\<lparr>collapsed = True, calls = []\<rparr>"]
  note b = C6_blank_or_malformed_entry_is_inert [OF disjI2 [OF malformed],
      of "\<lparr>path = js ''notes'', extension = js ''notes''\<rparr>", THEN conjunct1]
  from a have a1: "\<not> settingPathMatches \<lparr>path = js ''   '', extension = []\<rparr> (js ''   '')"
    by (rule conjunct1)
  from a have a2: "handleFileOpen (\<lambda>n::int. js ''0'')
     \<lparr>collapsePaths = [js ''   ''], collapseFrontmatterRules = []\<rparr> (\<lambda>f. None)
     (Some \<lparr>path = js ''   '', extension = []\<rparr>) \<lparr>collapsed = True, calls = []\<rparr> =
   handleFileOpen (\<lambda>n::int. js ''0'')
     \<lparr>collapsePaths = [], collapseFrontmatterRules = []\<rparr> (\<lambda>f. None)
     (Some \<lparr>path = js ''   '', extension = []\<rparr>) \<lparr>collapsed = True, calls = []\<rparr>"
    by simp
  from blank malformed a1 b a2 show ?thesis by blast
qed



text \<open>
  C8: when the file-open event delivers no file, the handler does nothing: the sidebar,
  together with the record of the calls it received, is returned as it was, so neither
  collapse nor expand was invoked, whatever the settings are.
\<close>

theorem C8_absent_file_no_action:
  "handleFileOpen numberToString settings getFileCache None ls = ls"
  by (simp add: handleFileOpen_def)

text \<open>
  C9: the defaults are no path rules and the single frontmatter rule \<open>hideside\<close>/\<open>true\<close>.
  Loading with nothing saved gives the defaults; loading a saved object gives, field by
  field, the saved field when the object holds it and the default field otherwise.
\<close>

theorem C9_load_settings_merges_over_defaults:
  "DEFAULT_SETTINGS =
     \<lparr>collapsePaths = [],
      collapseFrontmatterRules = [\<lparr>key = js ''hideside'', value' = js ''true''\<rparr>]\<rparr> \<and>
   loadSettings None = DEFAULT_SETTINGS \<and>
   collapsePaths (loadSettings (Some data)) =
     (case savedCollapsePaths data of
        None \<Rightarrow> collapsePaths DEFAULT_SETTINGS | Some paths \<Rightarrow> paths) \<and>
   collapseFrontmatterRules (loadSettings (Some data)) =
     (case savedCollapseFrontmatterRules data of
        None \<Rightarrow> collapseFrontmatterRules DEFAULT_SETTINGS | Some rules \<Rightarrow> rules)"
  by (simp add: loadSettings_def DEFAULT_SETTINGS_def)

theorem C9_witness:
  "collapsePaths (loadSettings (Some \<lparr>savedCollapsePaths = Some [js ''.pdf''],
       savedCollapseFrontmatterRules = None\<rparr>)) = [js ''.pdf''] \<and>
   collapseFrontmatterRules (loadSettings (Some \<lparr>savedCollapsePaths = Some [js ''.pdf''],
       savedCollapseFrontmatterRules = None\<rparr>)) =
     [\<lparr>key = js ''hideside'', value' = js ''true''\<rparr>] \<and>
   collapsePaths (loadSettings (Some \<lparr>savedCollapsePaths = None,
       savedCollapseFrontmatterRules = Some []\<rparr>)) = [] \<and>
   collapseFrontmatterRules (loadSettings (Some \<lparr>savedCollapsePaths = None,
       savedCollapseFrontmatterRules = Some []\<rparr>)) = []"
proof -
  note a = C9_load_settings_merges_over_defaults
    [of "\<lparr>savedCollapsePaths = Some [js ''.pdf''], savedCollapseFrontmatterRules = None\<rparr>"]
  note b = C9_load_settings_merges_over_defaults
    [of "\<lparr>savedCollapsePaths = None, savedCollapseFrontmatterRules = Some []\<rparr>"]
  from a have d: "DEFAULT_SETTINGS =
     \<lparr>collapsePaths = [],
      collapseFrontmatterRules = [\<lparr>key = js ''hideside'', value' = js ''true''\<rparr>]\<rparr>"
    by (rule conjunct1)
  from a have a': "collapsePaths (loadSettings (Some \<lparr>savedCollapsePaths = Some [js ''.pdf''],
       savedCollapseFrontmatterRules = None\<rparr>)) = [js ''.pdf''] \<and>
     collapseFrontmatterRules (loadSettings (Some \<lparr>savedCollapsePaths = Some [js ''.pdf''],
       savedCollapseFrontmatterRules = None\<rparr>)) = collapseFrontmatterRules DEFAULT_SETTINGS"
    by simp
  from b have b': "collapsePaths (loadSettings (Some \<lparr>savedCollapsePaths = None,
       savedCollapseFrontmatterRules = Some []\<rparr>)) = collapsePaths DEFAULT_SETTINGS \<and>
     collapseFrontmatterRules (loadSettings (Some \<lparr>savedCollapsePaths = None,
       savedCollapseFrontmatterRules = Some []\<rparr>)) = []"
    by simp
  have "collapsePaths DEFAULT_SETTINGS = []"
    and "collapseFrontmatterRules DEFAULT_SETTINGS =
      [\<lparr>key = js ''hideside'', value' = js ''true''\<rparr>]"
    by (simp_all add: d)
  with a' b' show ?thesis by simp
qed

text \<open>
  C10: the claim says that a rule whose key the frontmatter does not hold never matches.
  The test for \<open>undefined\<close> is made on the result of a property read, and the read of a
  key that only \<open>Object.prototype\<close> holds is defined. At the frontmatter \<open>{title: "x"}\<close> and
  the single rule \<open>constructor\<close>/\<open>function Object() { [native code] }\<close> the key is not in
  the frontmatter, and yet the rule matches, \<open>shouldCollapseSidebar\<close> is true and the
  handler collapses the sidebar.
\<close>

theorem C10_absent_key_matches_through_prototype:
  "[js ''title'' \<mapsto> FmString (js ''x'') :: int fmvalue] (js ''constructor'') = None \<and>
   frontmatterRuleMatches (\<lambda>n::int. js ''0'') [js ''title'' \<mapsto> FmString (js ''x'')]
     \<lparr>key = js ''constructor'', value' = js ''function Object() { [native code] }''\<rparr> \<and>
   shouldCollapseSidebar (\<lambda>n::int. js ''0'')
     \<lparr>collapsePaths = [],
      collapseFrontmatterRules =
        [\<lparr>key = js ''constructor'', value' = js ''function Object() { [native code] }''\<rparr>]\<rparr>
     (\<lambda>f. Some \<lparr>frontmatter = Some [js ''title'' \<mapsto> FmString (js ''x'')]\<rparr>)
     \<lparr>path = js ''notes/a.md'', extension = js ''md''\<rparr> \<and>
   handleFileOpen (\<lambda>n::int. js ''0'')
     \<lparr>collapsePaths = [],
      collapseFrontmatterRules =
        [\<lparr>key = js ''constructor'', value' = js ''function Object() { [native code] }''\<rparr>]\<rparr>
     (\<lambda>f. Some \<lparr>frontmatter = Some [js ''title'' \<mapsto> FmString (js ''x'')]\<rparr>)
     (Some \<lparr>path = js ''notes/a.md'', extension = js ''md''\<rparr>)
     \<lparr>collapsed = False, calls = []\<rparr> = \<lparr>collapsed = True, calls = [Collapse]\<rparr>"
proof -
  have absent: "[js ''title'' \<mapsto> FmString (js ''x'') :: int fmvalue] (js ''constructor'') = None"
    by (simp add: js_def)
  have rule: "frontmatterRuleMatches (\<lambda>n::int. js ''0'') [js ''title'' \<mapsto> FmString (js ''x'')]
     \<lparr>key = js ''constructor'', value' = js ''function Object() { [native code] }''\<rparr>"
    by (simp add: frontmatterRuleMatches_def Get_def ObjectPrototype_def js_eval)
  then have decision: "shouldCollapseSidebar (\<lambda>n::int. js ''0'')
     \<lparr>collapsePaths = [],
      collapseFrontmatterRules =
        [\<lparr>key = js ''constructor'', value' = js ''function Object() { [native code] }''\<rparr>]\<rparr>
     (\<lambda>f. Some \<lparr>frontmatter = Some [js ''title'' \<mapsto> FmString (js ''x'')]\<rparr>)
     \<lparr>path = js ''notes/a.md'', extension = js ''md''\<rparr>"
    by (simp add: shouldCollapseSidebar_def)
  then have "handleFileOpen (\<lambda>n::int. js ''0'')
     \<lparr>collapsePaths = [],
      collapseFrontmatterRules =
        [\<lparr>key = js ''constructor'', value' = js ''function Object() { [native code] }''\<rparr>]\<rparr>
     (\<lambda>f. Some \<lparr>frontmatter = Some [js ''title'' \<mapsto> FmString (js ''x'')]\<rparr>)
     (Some \<lparr>path = js ''notes/a.md'', extension = js ''md''\<rparr>)
     \<lparr>collapsed = False, calls = []\<rparr> = \<lparr>collapsed = True, calls = [Collapse]\<rparr>"
    by (simp add: handleFileOpen_Some collapse_def)
  with absent rule decision show ?thesis by (intro conjI)
qed

end
